theory Spec2Isabelle
  imports Complex_Main
begin

section \<open>JavaScript values\<close>

text \<open>
  The values a JavaScript \<^verbatim>\<open>catch\<close> clause can receive. \<open>JsError m\<close> is an instance of
  \<^verbatim>\<open>Error\<close> whose \<^verbatim>\<open>message\<close> is \<open>m\<close> (a string, as \<^verbatim>\<open>lib.d.ts\<close> declares it);
  \<open>JsObject ps\<close> is any other object, given by the properties that \<^verbatim>\<open>in\<close> finds on it.
  Strings are sequences of code units below 256.
\<close>

datatype js_value =
    JsUndefined
  | JsNull
  | JsBoolean bool
  | JsNumber real
  | JsString string
  | JsError string
  | JsObject "(string \<times> js_value) list"

fun instanceof_Error :: "js_value \<Rightarrow> bool" where
  "instanceof_Error (JsError m) = True"
| "instanceof_Error v = False"

fun typeof :: "js_value \<Rightarrow> string" where
  "typeof JsUndefined = ''undefined''"
| "typeof JsNull = ''object''"
| "typeof (JsBoolean b) = ''boolean''"
| "typeof (JsNumber x) = ''number''"
| "typeof (JsString s) = ''string''"
| "typeof (JsError m) = ''object''"
| "typeof (JsObject ps) = ''object''"

fun truthy :: "js_value \<Rightarrow> bool" where
  "truthy JsUndefined = False"
| "truthy JsNull = False"
| "truthy (JsBoolean b) = b"
| "truthy (JsNumber x) = (x \<noteq> 0)"
| "truthy (JsString s) = (s \<noteq> [])"
| "truthy (JsError m) = True"
| "truthy (JsObject ps) = True"

text \<open>\<^verbatim>\<open>key in v\<close> and \<^verbatim>\<open>v[key]\<close>, for the object values (the source applies them to nothing else).\<close>

fun has_property :: "string \<Rightarrow> js_value \<Rightarrow> bool" where
  "has_property k (JsObject ps) = (map_of ps k \<noteq> None)"
| "has_property k (JsError m) = (k = ''message'')"
| "has_property k v = False"

fun get_property :: "js_value \<Rightarrow> string \<Rightarrow> js_value" where
  "get_property (JsObject ps) k = (case map_of ps k of Some v \<Rightarrow> v | None \<Rightarrow> JsUndefined)"
| "get_property (JsError m) k = (if k = ''message'' then JsString m else JsUndefined)"
| "get_property v k = JsUndefined"

fun error_message :: "js_value \<Rightarrow> string" where
  "error_message (JsError m) = m"
| "error_message v = []"

fun string_value :: "js_value \<Rightarrow> string" where
  "string_value (JsString s) = s"
| "string_value v = []"

section \<open>The listing record\<close>

text \<open>\<^verbatim>\<open>type Product = z.infer<typeof ProductSchema>["product"]\<close>: thirteen string fields.\<close>

record Product =
  title :: string
  price :: string
  brand :: string
  model :: string
  cpu :: string
  ram :: string
  storage :: string
  availability :: string
  quantity :: string
  location :: string
  description :: string
  imageUrl :: string
  originalUrl :: string

section \<open>extractProductInfo\<close>

text \<open>
  \<open>run_result\<close> is the outcome of \<^verbatim>\<open>await scraper.run(page, ProductSchema, {format: "markdown"})\<close>:
  \<open>Inl e\<close> when the call throws \<open>e\<close>, \<open>Inr p\<close> when it returns data whose \<^verbatim>\<open>product\<close> is \<open>p\<close>.
  \<open>js_String\<close> is JavaScript's built-in \<^verbatim>\<open>String(...)\<close> conversion.
\<close>

definition extractProductInfo ::
    "(js_value \<Rightarrow> string) \<Rightarrow> js_value + Product \<Rightarrow> string \<Rightarrow> Product" where
  "extractProductInfo js_String run_result url =
     (case run_result of
        Inr data_product \<Rightarrow> data_product\<lparr>originalUrl := url\<rparr>
      | Inl error \<Rightarrow>
          (let errorMessage =
                 (if instanceof_Error error then error_message error
                  else if typeof error = ''string'' then string_value error
                  else if truthy error \<and> typeof error = ''object'' \<and> has_property ''message'' error
                    then js_String (get_property error ''message'')
                  else ''Unknown error'')
           in \<lparr>title = ''Extraction Failed'',
               price = ''Unknown'',
               brand = ''Unknown'',
               model = ''Unknown'',
               cpu = ''Unknown'',
               ram = ''Unknown'',
               storage = ''Unknown'',
               availability = ''Unknown'',
               quantity = ''Unknown'',
               location = ''Unknown'',
               description = ''Failed to extract information: '' @ errorMessage,
               imageUrl = [],
               originalUrl = url\<rparr>))"

section \<open>Double-precision numbers\<close>

text \<open>
  The non-negative finite values of a JavaScript number: \<open>Double m e\<close> is \<open>m * 2 ^ e\<close>. A
  double has \<open>m < 2 ^ 53\<close> and \<open>- 1074 \<le> e\<close>.
\<close>

datatype double = Double nat int

definition double_value :: "double \<Rightarrow> real" where
  "double_value d =
     (case d of Double m e \<Rightarrow> if 0 \<le> e then real m * 2 ^ nat e else real m / 2 ^ nat (- e))"

text \<open>The number of binary digits of \<open>n\<close>.\<close>

fun bit_length :: "nat \<Rightarrow> nat" where
  "bit_length n = (if n = 0 then 0 else Suc (bit_length (n div 2)))"

declare bit_length.simps [simp del]

text \<open>\<open>n / 2 ^ s\<close> rounded to the nearest integer, a tie going to the even one.\<close>

definition round_shift :: "nat \<Rightarrow> nat \<Rightarrow> nat" where
  "round_shift n s =
     (if s = 0 then n
      else (let q = n div 2 ^ s; rest = n mod 2 ^ s; half = 2 ^ (s - 1)
            in if rest > half \<or> (rest = half \<and> odd q) then q + 1 else q))"

text \<open>
  The product \<^verbatim>\<open>a * b\<close> of IEEE 754: the exact product, rounded to nearest, ties to even, to
  53 binary digits and to no digit below \<open>2 ^ - 1074\<close>. (A product of \<open>2 ^ 1024\<close> or more, which
  JavaScript gives as \<^verbatim>\<open>Infinity\<close>, is outside the model.)
\<close>

definition double_times :: "double \<Rightarrow> double \<Rightarrow> double" where
  "double_times a b =
     (case a of Double m1 e1 \<Rightarrow>
      case b of Double m2 e2 \<Rightarrow>
        (let n = m1 * m2;
             e = e1 + e2;
             s = nat (max (int (bit_length n) - 53) (- 1074 - e))
         in Double (round_shift n s) (e + int s)))"

section \<open>scrapeProducts\<close>

text \<open>
  What the browser does is outside the program. For the URL at index \<open>i\<close> the environment
  fixes the outcome of every awaited call of the loop body: \<open>Some e\<close> when the call throws
  \<open>e\<close>, \<open>None\<close> when it returns; \<open>scraper_run\<close> is the outcome of the extraction call and
  \<open>Math_random\<close> the double \<^verbatim>\<open>Math.random()\<close> returns in that iteration.
\<close>

record page_outcome =
  browser_newContext :: "js_value option"
  context_newPage :: "js_value option"
  page_goto :: "js_value option"
  scraper_run :: "js_value + Product"
  context_close :: "js_value option"
  Math_random :: double

record browser_env =
  OPENAI_API_KEY :: "string option"
  chromium_launch :: "js_value option"
  outcome :: "nat \<Rightarrow> page_outcome"
  browser_close :: "js_value option"

text \<open>
  Console output of the program, by kind of line: errors and the summary. The progress lines
  are left out; no line carries control flow.
\<close>

datatype console_line =
    Usage
  | ErrorReadingUrls string
  | FailedUrl nat js_value
  | TotalProcessed nat
  | SuccessfulExtractions nat nat
  | PriceRange real real
  | AveragePrice real
  | Sample nat Product
  | ResultsSaved string string
  | ErrorInMain js_value
  | Rejected js_value

text \<open>
  The effects of a run, in the order they happen. \<open>ContextOpened i\<close>, \<open>PageOpened i\<close> and
  \<open>Navigated i url\<close> record calls that returned; \<open>ContextClose i\<close> records that
  \<^verbatim>\<open>context.close()\<close> was called for the context of URL \<open>i\<close>; \<open>Sleep d\<close> is the awaited
  \<^verbatim>\<open>setTimeout\<close> of \<open>d\<close> milliseconds.
\<close>

datatype event =
    MkDir string
  | BrowserLaunch
  | ContextOpened nat
  | PageOpened nat
  | Navigated nat string
  | Extracted nat
  | ContextClose nat
  | Sleep int
  | BrowserClose
  | WriteFile string string
  | Console console_line

record scrape_state =
  products :: "Product list"
  trace :: "event list"

definition emit :: "event list \<Rightarrow> scrape_state \<Rightarrow> scrape_state" where
  "emit evs st = st\<lparr>trace := trace st @ evs\<rparr>"

text \<open>
  \<^verbatim>\<open>Math.floor(Math.random() * 2000) + 1000\<close>. The product is that of doubles; \<^verbatim>\<open>Math.floor\<close>
  and the sum are exact, their results being integers below \<open>2 ^ 53\<close>.
\<close>

definition delay_of :: "double \<Rightarrow> int" where
  "delay_of r = \<lfloor>double_value (double_times r (Double 2000 0))\<rfloor> + 1000"

text \<open>
  The body of the \<^verbatim>\<open>try\<close> block of one iteration. It returns the thrown value, if one escapes
  to the \<^verbatim>\<open>catch\<close> of the iteration, and the state reached.
\<close>

definition try_url ::
    "(js_value \<Rightarrow> string) \<Rightarrow> page_outcome \<Rightarrow> string list \<Rightarrow> nat \<Rightarrow> scrape_state
      \<Rightarrow> js_value option \<times> scrape_state" where
  "try_url js_String oc urls i st =
     (let url = urls ! i in
      case browser_newContext oc of
        Some e \<Rightarrow> (Some e, st)
      | None \<Rightarrow>
         (let st1 = emit [ContextOpened i] st in
          case context_newPage oc of
            Some e \<Rightarrow> (Some e, st1)
          | None \<Rightarrow>
             (let st2 = emit [PageOpened i] st1 in
              case page_goto oc of
                Some e \<Rightarrow> (Some e, st2)
              | None \<Rightarrow>
                 (let st3 = emit [Navigated i url] st2;
                      product = extractProductInfo js_String (scraper_run oc) url;
                      st4 = emit [Extracted i] (st3\<lparr>products := products st3 @ [product]\<rparr>);
                      st5 = emit [ContextClose i] st4
                  in case context_close oc of
                       Some e \<Rightarrow> (Some e, st5)
                     | None \<Rightarrow>
                        (if int i < int (length urls) - 1
                         then (None, emit [Sleep (delay_of (Math_random oc))] st5)
                         else (None, st5))))))"

text \<open>One iteration: the \<^verbatim>\<open>try\<close> block and its \<^verbatim>\<open>catch\<close>, which only logs.\<close>

definition iteration ::
    "(js_value \<Rightarrow> string) \<Rightarrow> browser_env \<Rightarrow> string list \<Rightarrow> nat \<Rightarrow> scrape_state \<Rightarrow> scrape_state" where
  "iteration js_String b urls i st =
     (case try_url js_String (outcome b i) urls i st of
        (Some e, st') \<Rightarrow> emit [Console (FailedUrl i e)] st'
      | (None, st') \<Rightarrow> st')"

text \<open>\<^verbatim>\<open>for (let i = 0; i < urls.length; i++)\<close>\<close>

function scrape_loop ::
    "(js_value \<Rightarrow> string) \<Rightarrow> browser_env \<Rightarrow> string list \<Rightarrow> nat \<Rightarrow> scrape_state \<Rightarrow> scrape_state" where
  "scrape_loop js_String b urls i st =
     (if i < length urls
      then scrape_loop js_String b urls (i + 1) (iteration js_String b urls i st)
      else st)"
  by pat_completeness auto
termination
  by (relation "measure (\<lambda>(S, b, urls, i, st). length urls - i)") auto

text \<open>An environment variable is falsy when it is unset or empty.\<close>

definition env_truthy :: "string option \<Rightarrow> bool" where
  "env_truthy v = (case v of None \<Rightarrow> False | Some s \<Rightarrow> s \<noteq> [])"

text \<open>
  The result is \<open>Inl e\<close> when the returned promise rejects with \<open>e\<close>, \<open>Inr ps\<close> when it resolves
  to the list \<open>ps\<close>; the second component is the effects of the call.
\<close>

definition scrapeProducts ::
    "(js_value \<Rightarrow> string) \<Rightarrow> browser_env \<Rightarrow> string list \<Rightarrow> (js_value + Product list) \<times> event list" where
  "scrapeProducts js_String b urls =
     (if \<not> env_truthy (OPENAI_API_KEY b)
      then (Inl (JsError ''OPENAI_API_KEY environment variable is not set''), [])
      else case chromium_launch b of
        Some e \<Rightarrow> (Inl e, [])
      | None \<Rightarrow>
         (let st = scrape_loop js_String b urls 0 \<lparr>products = [], trace = [BrowserLaunch]\<rparr>
          in case browser_close b of
               Some e \<Rightarrow> (Inl e, trace st @ [BrowserClose])
             | None \<Rightarrow> (Inr (products st), trace st @ [BrowserClose])))"

section \<open>displayProducts\<close>

text \<open>
  Numbers are exact reals: the source computes in IEEE doubles, which agree with the exact
  values as long as every intermediate value is representable.
\<close>

definition is_digit :: "char \<Rightarrow> bool" where
  "is_digit c = (c \<in> set ''0123456789'')"

text \<open>\<^verbatim>\<open>replace(/[^0-9.]/g, '')\<close>\<close>

definition strip_price :: "string \<Rightarrow> string" where
  "strip_price s = filter (\<lambda>c. is_digit c \<or> c = CHR ''.'') s"

definition digits_value :: "string \<Rightarrow> nat" where
  "digits_value ds = foldl (\<lambda>a c. 10 * a + (of_char c - 48)) 0 ds"

text \<open>
  JavaScript's \<^verbatim>\<open>parseFloat\<close> on a string of digits and points, which is all the source
  passes to it: the longest prefix that is a decimal literal (digits, then optionally a
  point and digits; or a point and at least one digit). \<open>None\<close> is \<^verbatim>\<open>NaN\<close>.
\<close>

definition parseFloat :: "string \<Rightarrow> real option" where
  "parseFloat s =
     (let ip = takeWhile is_digit s;
          rest = dropWhile is_digit s;
          fp = (case rest of [] \<Rightarrow> [] | c # r \<Rightarrow> if c = CHR ''.'' then takeWhile is_digit r else [])
      in if ip = [] \<and> fp = [] then None
         else Some (real (digits_value ip) + real (digits_value fp) / 10 ^ length fp))"

text \<open>\<^verbatim>\<open>p.price !== "Unknown" ? parseFloat(p.price.replace(/[^0-9.]/g, '')) : NaN\<close>\<close>

definition price_number :: "Product \<Rightarrow> real option" where
  "price_number p = (if price p \<noteq> ''Unknown'' then parseFloat (strip_price (price p)) else None)"

text \<open>\<^verbatim>\<open>products.map(...).filter(price => !isNaN(price))\<close>\<close>

definition prices_of :: "Product list \<Rightarrow> real list" where
  "prices_of ps = map the (filter (\<lambda>x. x \<noteq> None) (map price_number ps))"

definition successful_count :: "Product list \<Rightarrow> nat" where
  "successful_count ps = length (filter (\<lambda>p. title p \<noteq> ''Extraction Failed'') ps)"

text \<open>The price lines of the summary: \<open>Some (minPrice, maxPrice, avgPrice)\<close> when they are printed.\<close>

definition price_statistics :: "Product list \<Rightarrow> (real \<times> real \<times> real) option" where
  "price_statistics ps =
     (if successful_count ps > 0
      then (let prices = prices_of ps
            in if length prices > 0
               then (let avgPrice = foldl (\<lambda>sum price. sum + price) 0 prices / real (length prices);
                         minPrice = foldl min (hd prices) (tl prices);
                         maxPrice = foldl max (hd prices) (tl prices)
                     in Some (minPrice, maxPrice, avgPrice))
               else None)
      else None)"

definition displayProducts :: "Product list \<Rightarrow> console_line list" where
  "displayProducts ps =
     [TotalProcessed (length ps), SuccessfulExtractions (successful_count ps) (length ps)]
     @ (case price_statistics ps of
          Some (minPrice, maxPrice, avgPrice) \<Rightarrow> [PriceRange minPrice maxPrice, AveragePrice avgPrice]
        | None \<Rightarrow> [])
     @ map (\<lambda>i. Sample (i + 1) (ps ! i)) [0 ..< min 3 (length ps)]"

section \<open>saveProductsToCSV\<close>

definition quote :: char where
  "quote = CHR 0x22"

text \<open>\<^verbatim>\<open>Array.prototype.join\<close>\<close>

fun join :: "string \<Rightarrow> string list \<Rightarrow> string" where
  "join sep [] = []"
| "join sep [x] = x"
| "join sep (x # y # ys) = x @ sep @ join sep (y # ys)"

text \<open>\<^verbatim>\<open>cell.replace(/"/g, '""')\<close>\<close>

definition double_quotes :: "string \<Rightarrow> string" where
  "double_quotes cell = concat (map (\<lambda>c. if c = quote then [quote, quote] else [c]) cell)"

text \<open>\<^verbatim>\<open>cell ? `"${cell.replace(/"/g, '""')}"` : ""\<close>; a string is falsy when it is empty.\<close>

definition csv_cell :: "string \<Rightarrow> string" where
  "csv_cell cell = (if cell \<noteq> [] then [quote] @ double_quotes cell @ [quote] else [])"

definition headers :: "string list" where
  "headers = [''Title'', ''Price'', ''Brand'', ''Model'', ''CPU'', ''RAM'', ''Storage'',
     ''Availability'', ''Quantity'', ''Location'', ''Description'', ''Image URL'', ''Original URL'']"

definition csv_row :: "Product \<Rightarrow> string list" where
  "csv_row product = [title product, price product, brand product, model product, cpu product,
     ram product, storage product, availability product, quantity product, location product,
     description product, imageUrl product, originalUrl product]"

definition csvContent :: "Product list \<Rightarrow> string" where
  "csvContent ps =
     join [CHR 0x0A]
       (join '','' headers # map (\<lambda>row. join '','' (map csv_cell row)) (map csv_row ps))"

text \<open>
  A reader for one quoted CSV field (RFC 4180): after the opening quote, a doubled quote
  stands for one quote and a single quote ends the field, which must end the input.
\<close>

fun read_quoted_body :: "string \<Rightarrow> string option" where
  "read_quoted_body [] = None"
| "read_quoted_body [c] = (if c = quote then Some [] else None)"
| "read_quoted_body (c # d # cs) =
     (if c = quote
      then (if d = quote then map_option ((#) quote) (read_quoted_body cs) else None)
      else map_option ((#) c) (read_quoted_body (d # cs)))"

definition read_csv_cell :: "string \<Rightarrow> string option" where
  "read_csv_cell s =
     (case s of [] \<Rightarrow> Some []
      | c # cs \<Rightarrow> if c = quote then read_quoted_body cs else None)"

section \<open>readUrlsFromFile\<close>

text \<open>
  The value \<^verbatim>\<open>JSON.parse\<close> returns. An array is taken at the element type \<^verbatim>\<open>string[]\<close> that
  the source declares for it and never checks.
\<close>

datatype json =
    JNull
  | JBool bool
  | JNumber real
  | JString string
  | JArray "string list"
  | JObject "(string \<times> json) list"

text \<open>\<^verbatim>\<open>jsonData.urls\<close>: \<open>Inl\<close> is the TypeError of a property read on \<^verbatim>\<open>null\<close>, \<open>None\<close> is \<^verbatim>\<open>undefined\<close>.\<close>

fun json_urls :: "json \<Rightarrow> js_value + json option" where
  "json_urls JNull = Inl (JsError ''Cannot read properties of null (reading 'urls')'')"
| "json_urls (JObject ps) = Inr (map_of ps ''urls'')"
| "json_urls v = Inr None"

fun json_truthy :: "json \<Rightarrow> bool" where
  "json_truthy JNull = False"
| "json_truthy (JBool b) = b"
| "json_truthy (JNumber x) = (x \<noteq> 0)"
| "json_truthy (JString s) = (s \<noteq> [])"
| "json_truthy (JArray xs) = True"
| "json_truthy (JObject ps) = True"

fun Array_isArray :: "json \<Rightarrow> bool" where
  "Array_isArray (JArray xs) = True"
| "Array_isArray v = False"

fun array_elements :: "json \<Rightarrow> string list" where
  "array_elements (JArray xs) = xs"
| "array_elements v = []"

text \<open>\<^verbatim>\<open>split("\n")\<close>\<close>

fun split_lines :: "string \<Rightarrow> string list" where
  "split_lines [] = [[]]"
| "split_lines (c # cs) =
     (if c = CHR 0x0A then [] # split_lines cs
      else (case split_lines cs of [] \<Rightarrow> [[c]] | l # ls \<Rightarrow> (c # l) # ls))"

text \<open>The white space and line terminators that \<^verbatim>\<open>trim\<close> removes, among the code units below 256.\<close>

definition is_space :: "char \<Rightarrow> bool" where
  "is_space c = (of_char c \<in> {9, 10, 11, 12, 13, 32, 160 :: nat})"

definition trim :: "string \<Rightarrow> string" where
  "trim s = rev (dropWhile is_space (rev (dropWhile is_space s)))"

definition startsWith :: "string \<Rightarrow> string \<Rightarrow> bool" where
  "startsWith s p = (take (length p) s = p)"

text \<open>The \<^verbatim>\<open>catch\<close> branch of the inner \<^verbatim>\<open>try\<close>: the content as a text file, one URL per line.\<close>

definition text_urls :: "string \<Rightarrow> string list" where
  "text_urls fileContent =
     filter (\<lambda>line. length line > 0 \<and> startsWith line ''http'')
       (map trim (split_lines fileContent))"

text \<open>
  The inner \<^verbatim>\<open>try\<close> statement: \<open>Some urls\<close> when it returns \<open>urls\<close>, \<open>None\<close> when control falls out
  of it. Its \<^verbatim>\<open>catch\<close> has no binding and takes every exception of the block.
\<close>

definition parse_urls :: "(string \<Rightarrow> js_value + json) \<Rightarrow> string \<Rightarrow> string list option" where
  "parse_urls JSON_parse fileContent =
     (case JSON_parse fileContent of
        Inl e \<Rightarrow> Some (text_urls fileContent)
      | Inr jsonData \<Rightarrow>
         (if Array_isArray jsonData then Some (array_elements jsonData)
          else (case json_urls jsonData of
                  Inl e \<Rightarrow> Some (text_urls fileContent)
                | Inr None \<Rightarrow> None
                | Inr (Some urls) \<Rightarrow>
                   (if json_truthy urls \<and> Array_isArray urls then Some (array_elements urls)
                    else None))))"

text \<open>
  \<open>readFileSync\<close> and \<open>JSON_parse\<close> are the outcomes of \<^verbatim>\<open>fs.readFileSync(filePath, "utf-8")\<close>
  and \<^verbatim>\<open>JSON.parse\<close>. The result is the returned list and what the outer \<^verbatim>\<open>catch\<close> logged.
\<close>

definition readUrlsFromFile ::
    "(js_value \<Rightarrow> string) \<Rightarrow> (string \<Rightarrow> js_value + string) \<Rightarrow> (string \<Rightarrow> js_value + json)
      \<Rightarrow> string \<Rightarrow> string list \<times> console_line list" where
  "readUrlsFromFile js_String readFileSync JSON_parse filePath =
     (let caught = (\<lambda>error.
            ([], [ErrorReadingUrls
                    (if instanceof_Error error then error_message error else js_String error)]))
      in case readFileSync filePath of
           Inl e \<Rightarrow> caught e
         | Inr fileContent \<Rightarrow>
            (case parse_urls JSON_parse fileContent of
               Some urls \<Rightarrow> (urls, [])
             | None \<Rightarrow> caught (JsError ''Could not parse input file format'')))"

section \<open>Command line and output directory\<close>

record options =
  inputFile :: "string option"
  outputPrefix :: "string option"
  showHelp :: bool

text \<open>
  The loop of \<open>parseArgs\<close> over the remaining arguments; \<^verbatim>\<open>args[++i]\<close> takes the next
  argument, \<^verbatim>\<open>undefined\<close> (\<open>None\<close>) when there is none.
\<close>

fun parseArgs_loop :: "string list \<Rightarrow> options \<Rightarrow> options" where
  "parseArgs_loop [] opts = opts"
| "parseArgs_loop (arg # rest) opts =
     (if arg = ''--input'' \<or> arg = ''-i''
      then (case rest of
              [] \<Rightarrow> opts\<lparr>inputFile := None\<rparr>
            | v # rest' \<Rightarrow> parseArgs_loop rest' (opts\<lparr>inputFile := Some v\<rparr>))
      else if arg = ''--output'' \<or> arg = ''-o''
      then (case rest of
              [] \<Rightarrow> opts\<lparr>outputPrefix := None\<rparr>
            | v # rest' \<Rightarrow> parseArgs_loop rest' (opts\<lparr>outputPrefix := Some v\<rparr>))
      else if arg = ''--help'' \<or> arg = ''-h''
      then parseArgs_loop rest (opts\<lparr>showHelp := True\<rparr>)
      else parseArgs_loop rest opts)"

definition parseArgs :: "string list \<Rightarrow> options" where
  "parseArgs args = parseArgs_loop args \<lparr>inputFile = None, outputPrefix = None, showHelp = False\<rparr>"

text \<open>
  The machine the program runs on: its arguments, clock and file system, and the built-ins
  \<^verbatim>\<open>path.join\<close>, \<^verbatim>\<open>JSON.parse\<close> and \<^verbatim>\<open>JSON.stringify(products, null, 2)\<close>. A call that can
  throw gives \<open>Some e\<close> (or \<open>Inl e\<close>) when it throws \<open>e\<close>.
\<close>

record host_env =
  argv :: "string list"
  toISOString :: string
  cwd :: string
  path_join :: "string \<Rightarrow> string \<Rightarrow> string"
  existsSync :: "string \<Rightarrow> bool"
  mkdirSync :: "string \<Rightarrow> js_value option"
  readFileSync :: "string \<Rightarrow> js_value + string"
  JSON_parse :: "string \<Rightarrow> js_value + json"
  JSON_stringify :: "Product list \<Rightarrow> string"
  writeFileSync :: "string \<Rightarrow> string \<Rightarrow> js_value option"

text \<open>\<^verbatim>\<open>new Date().toISOString().replace(/[:.]/g, "-").slice(0, 19)\<close>\<close>

definition timestamp_of :: "string \<Rightarrow> string" where
  "timestamp_of stamp =
     take 19 (map (\<lambda>c. if c = CHR '':'' \<or> c = CHR ''.'' then CHR ''-'' else c) stamp)"

definition ensureOutputDirectoryExists :: "host_env \<Rightarrow> (js_value + string) \<times> event list" where
  "ensureOutputDirectoryExists h =
     (let timestamp = timestamp_of (toISOString h);
          baseOutputDir = path_join h (cwd h) ''output'';
          outputDir = path_join h baseOutputDir timestamp;
          made_base = (if \<not> existsSync h baseOutputDir then Some (mkdirSync h baseOutputDir) else None)
      in case made_base of
           Some (Some e) \<Rightarrow> (Inl e, [])
         | _ \<Rightarrow>
           (let ev1 = (if made_base = None then [] else [MkDir baseOutputDir])
            in if \<not> existsSync h outputDir
               then (case mkdirSync h outputDir of
                       Some e \<Rightarrow> (Inl e, ev1)
                     | None \<Rightarrow> (Inr outputDir, ev1 @ [MkDir outputDir]))
               else (Inr outputDir, ev1)))"

section \<open>Persistence and main\<close>

text \<open>Both save functions: the full path, and the effect of \<^verbatim>\<open>fs.writeFileSync\<close> or what it throws.\<close>

definition saveProductsToFile ::
    "host_env \<Rightarrow> Product list \<Rightarrow> string \<Rightarrow> string \<Rightarrow> (js_value + string) \<times> event list" where
  "saveProductsToFile h ps outputDir filename =
     (let fullPath = path_join h outputDir filename;
          content = JSON_stringify h ps
      in case writeFileSync h fullPath content of
           Some e \<Rightarrow> (Inl e, [])
         | None \<Rightarrow> (Inr fullPath, [WriteFile fullPath content]))"

definition saveProductsToCSV ::
    "host_env \<Rightarrow> Product list \<Rightarrow> string \<Rightarrow> string \<Rightarrow> (js_value + string) \<times> event list" where
  "saveProductsToCSV h ps outputDir filename =
     (let fullPath = path_join h outputDir filename;
          content = csvContent ps
      in case writeFileSync h fullPath content of
           Some e \<Rightarrow> (Inl e, [])
         | None \<Rightarrow> (Inr fullPath, [WriteFile fullPath content]))"

definition exampleUrls :: "string list" where
  "exampleUrls =
     [''https://www.facebook.com/marketplace/item/3205154652960339/'',
      ''https://www.facebook.com/marketplace/item/664792412773207/'',
      ''https://www.facebook.com/marketplace/item/3856292544625767/'']"

text \<open>
  The part of \<open>main\<close> headed \<^verbatim>\<open>// Determine which URLs to scrape\<close>: the list to scrape and
  the console lines of \<open>readUrlsFromFile\<close>. An absent or empty path is falsy.
\<close>

definition urlsToScrape :: "(js_value \<Rightarrow> string) \<Rightarrow> host_env \<Rightarrow> options \<Rightarrow> string list \<times> console_line list" where
  "urlsToScrape js_String h opts =
     (case inputFile opts of
        None \<Rightarrow> (exampleUrls, [])
      | Some file \<Rightarrow>
         (if file = [] then (exampleUrls, [])
          else (case readUrlsFromFile js_String (readFileSync h) (JSON_parse h) file of
                  (urls, logged) \<Rightarrow>
                    (if length urls > 0 then (urls, logged) else (exampleUrls, logged)))))"

text \<open>\<^verbatim>\<open>options.outputPrefix || "pc_listings"\<close>\<close>

definition outputPrefix_of :: "options \<Rightarrow> string" where
  "outputPrefix_of opts =
     (case outputPrefix opts of None \<Rightarrow> ''pc_listings'' | Some s \<Rightarrow> if s = [] then ''pc_listings'' else s)"

text \<open>
  The \<^verbatim>\<open>try\<close> statement of \<open>main\<close>; its \<^verbatim>\<open>catch\<close> logs whatever the block throws, after the
  effects the block had until then.
\<close>

definition run_pipeline ::
    "(js_value \<Rightarrow> string) \<Rightarrow> host_env \<Rightarrow> browser_env \<Rightarrow> string list \<Rightarrow> string \<Rightarrow> string \<Rightarrow> event list" where
  "run_pipeline js_String h b urls outputDir prefix =
     (let jsonFilename = prefix @ ''.json'';
          csvFilename = prefix @ ''.csv''
      in case scrapeProducts js_String b urls of
           (Inl e, ev) \<Rightarrow> ev @ [Console (ErrorInMain e)]
         | (Inr ps, ev) \<Rightarrow>
            (let shown = ev @ map Console (displayProducts ps)
             in case saveProductsToFile h ps outputDir jsonFilename of
                  (Inl e, ev1) \<Rightarrow> shown @ ev1 @ [Console (ErrorInMain e)]
                | (Inr jsonPath, ev1) \<Rightarrow>
                   (case saveProductsToCSV h ps outputDir csvFilename of
                      (Inl e, ev2) \<Rightarrow> shown @ ev1 @ ev2 @ [Console (ErrorInMain e)]
                    | (Inr csvPath, ev2) \<Rightarrow>
                        shown @ ev1 @ ev2 @ [Console (ResultsSaved jsonPath csvPath)])))"

text \<open>
  \<open>main\<close>, by its effects in order. An exception of \<open>ensureOutputDirectoryExists\<close> is outside
  the \<^verbatim>\<open>try\<close> statement: it rejects the promise of \<open>main\<close> and ends the run.
\<close>

definition main :: "(js_value \<Rightarrow> string) \<Rightarrow> host_env \<Rightarrow> browser_env \<Rightarrow> event list" where
  "main js_String h b =
     (let opts = parseArgs (argv h)
      in if showHelp opts then [Console Usage]
         else (case ensureOutputDirectoryExists h of
                 (Inl e, ev) \<Rightarrow> ev @ [Console (Rejected e)]
               | (Inr outputDir, ev) \<Rightarrow>
                  (case urlsToScrape js_String h opts of
                     (urls, logged) \<Rightarrow>
                       ev @ map Console logged
                       @ run_pipeline js_String h b urls outputDir (outputPrefix_of opts))))"

section \<open>Vocabulary of the properties\<close>

text \<open>The message expected from the catch branch of \<open>extractProductInfo\<close>, by kind of thrown value.\<close>

fun thrown_message :: "(js_value \<Rightarrow> string) \<Rightarrow> js_value \<Rightarrow> string" where
  "thrown_message S (JsError m) = m"
| "thrown_message S (JsString s) = s"
| "thrown_message S (JsObject ps) =
     (case map_of ps ''message'' of Some v \<Rightarrow> S v | None \<Rightarrow> ''Unknown error'')"
| "thrown_message S v = ''Unknown error''"

text \<open>The iteration reaches the extraction call: context, page and navigation all succeeded.\<close>

definition navigates :: "page_outcome \<Rightarrow> bool" where
  "navigates oc = (browser_newContext oc = None \<and> context_newPage oc = None \<and> page_goto oc = None)"

text \<open>Nothing is thrown in the iteration.\<close>

definition completes :: "page_outcome \<Rightarrow> bool" where
  "completes oc = (navigates oc \<and> context_close oc = None)"

text \<open>The records expected of a run: one for each URL that was navigated to, in input order.\<close>

definition expected_records :: "(js_value \<Rightarrow> string) \<Rightarrow> browser_env \<Rightarrow> string list \<Rightarrow> Product list" where
  "expected_records S b urls =
     map (\<lambda>j. extractProductInfo S (scraper_run (outcome b j)) (urls ! j))
       (filter (\<lambda>j. navigates (outcome b j)) [0 ..< length urls])"

text \<open>What \<^verbatim>\<open>Math.random()\<close> returns: a double that is at least 0 and less than 1.\<close>

definition unit_double :: "double \<Rightarrow> bool" where
  "unit_double r =
     (case r of Double m e \<Rightarrow> m < 2 ^ 53 \<and> - 1074 \<le> e \<and> double_value (Double m e) < 1)"

text \<open>The delays of a trace, in order.\<close>

fun sleeps :: "event list \<Rightarrow> int list" where
  "sleeps [] = []"
| "sleeps (Sleep d # evs) = d # sleeps evs"
| "sleeps (ev # evs) = sleeps evs"

text \<open>The effects of the iteration for URL \<open>i\<close> alone.\<close>

definition url_events :: "(js_value \<Rightarrow> string) \<Rightarrow> browser_env \<Rightarrow> string list \<Rightarrow> nat \<Rightarrow> event list" where
  "url_events S b urls i = trace (iteration S b urls i \<lparr>products = [], trace = []\<rparr>)"

section \<open>Example environments\<close>

definition plain_String :: "js_value \<Rightarrow> string" where
  "plain_String v =
     (case v of JsString s \<Rightarrow> s | JsUndefined \<Rightarrow> ''undefined'' | JsNull \<Rightarrow> ''null''
      | JsError m \<Rightarrow> ''Error: '' @ m | _ \<Rightarrow> ''[object Object]'')"

definition listing :: Product where
  "listing = \<lparr>title = ''Gaming PC'', price = ''$100'', brand = ''Dell'', model = ''XPS'',
     cpu = ''i7'', ram = ''16GB'', storage = ''1TB SSD'', availability = ''Available'',
     quantity = ''1'', location = ''Austin, TX'', description = ''Runs well'',
     imageUrl = ''https://img.example/1.jpg'', originalUrl = ''https://img.example/item''\<rparr>"

text \<open>A page where everything succeeds; its random value is one half.\<close>

definition page_ok :: page_outcome where
  "page_ok = \<lparr>browser_newContext = None, context_newPage = None, page_goto = None,
     scraper_run = Inr listing, context_close = None,
     Math_random = Double 4503599627370496 (- 53)\<rparr>"

text \<open>Navigation times out.\<close>

definition page_unreachable :: page_outcome where
  "page_unreachable = page_ok\<lparr>page_goto := Some (JsError ''Timeout 30000ms exceeded'')\<rparr>"

text \<open>The extraction call throws.\<close>

definition page_unreadable :: page_outcome where
  "page_unreadable = page_ok\<lparr>scraper_run := Inl (JsError ''No object generated'')\<rparr>"

definition browser_with :: "(nat \<Rightarrow> page_outcome) \<Rightarrow> browser_env" where
  "browser_with pages = \<lparr>OPENAI_API_KEY = Some ''sk-test'', chromium_launch = None,
     outcome = pages, browser_close = None\<rparr>"


definition browser_without_key :: browser_env where
  "browser_without_key = (browser_with (\<lambda>i. page_ok))\<lparr>OPENAI_API_KEY := None\<rparr>"

text \<open>
  A text file of four lines: an empty one, a comment, a URL ended by a carriage return, and an
  indented URL followed by blanks.
\<close>

definition url_file :: string where
  "url_file = [CHR 0x0A] @ ''# my list'' @ [CHR 0x0A] @ ''http://a'' @ [CHR 0x0D, CHR 0x0A]
     @ ''   https://b  '' @ [CHR 0x0A]"

text \<open>A machine with an empty working directory, where \<^verbatim>\<open>urls.txt\<close> holds \<open>content\<close>.\<close>

definition demo_host :: "string list \<Rightarrow> string \<Rightarrow> host_env" where
  "demo_host args content =
     \<lparr>argv = args, toISOString = ''2025-01-02T03:04:05.678Z'', cwd = ''/work'',
      path_join = (\<lambda>a b. a @ ''/'' @ b), existsSync = (\<lambda>p. False), mkdirSync = (\<lambda>p. None),
      readFileSync = (\<lambda>p. if p = ''urls.txt'' then Inr content else Inl (JsError ''ENOENT'')),
      JSON_parse = (\<lambda>c. Inl (JsError ''Unexpected token'')),
      JSON_stringify = (\<lambda>ps. ''[]''), writeFileSync = (\<lambda>p c. None)\<rparr>"

section \<open>Vocabulary of the effects\<close>

text \<open>Work of the browser, and writing a file.\<close>

fun browser_work :: "event \<Rightarrow> bool" where
  "browser_work (MkDir p) = False"
| "browser_work (WriteFile p c) = False"
| "browser_work (Console l) = False"
| "browser_work ev = True"

fun file_written :: "event \<Rightarrow> bool" where
  "file_written (WriteFile p c) = True"
| "file_written ev = False"

text \<open>A parsed JSON value that gives a URL list: an array, or an object whose \<^verbatim>\<open>urls\<close> is an array.\<close>

fun usable :: "json \<Rightarrow> bool" where
  "usable (JArray xs) = True"
| "usable (JObject ps) = (case map_of ps ''urls'' of Some (JArray xs) \<Rightarrow> True | _ \<Rightarrow> False)"
| "usable v = False"

section \<open>Lemmas on extractProductInfo\<close>

lemma errorMessage_cases:
  "(if instanceof_Error e then error_message e
    else if typeof e = ''string'' then string_value e
    else if truthy e \<and> typeof e = ''object'' \<and> has_property ''message'' e
      then S (get_property e ''message'')
    else ''Unknown error'') = thrown_message S e"
  by (cases e) (auto split: option.splits)

lemma extract_failed:
  "extractProductInfo S (Inl e) url =
     \<lparr>title = ''Extraction Failed'', price = ''Unknown'', brand = ''Unknown'', model = ''Unknown'',
      cpu = ''Unknown'', ram = ''Unknown'', storage = ''Unknown'', availability = ''Unknown'',
      quantity = ''Unknown'', location = ''Unknown'',
      description = ''Failed to extract information: '' @ thrown_message S e,
      imageUrl = [], originalUrl = url\<rparr>"
  unfolding extractProductInfo_def Let_def errorMessage_cases by simp

lemma extract_originalUrl: "originalUrl (extractProductInfo S r url) = url"
  by (simp add: extractProductInfo_def Let_def split: sum.splits)

section \<open>C4: the placeholder of a failed extraction\<close>

text \<open>
  Claim C4. Whatever the extraction call throws, \<open>extractProductInfo\<close> returns the record with
  title "Extraction Failed", a description that is "Failed to extract information: " followed by
  the message of the thrown value, an empty imageUrl, the input URL as originalUrl, and
  "Unknown" in each of the nine other fields.
\<close>

theorem extractProductInfo_placeholder:
  "extractProductInfo S (Inl e) url =
     \<lparr>title = ''Extraction Failed'', price = ''Unknown'', brand = ''Unknown'', model = ''Unknown'',
      cpu = ''Unknown'', ram = ''Unknown'', storage = ''Unknown'', availability = ''Unknown'',
      quantity = ''Unknown'', location = ''Unknown'',
      description = ''Failed to extract information: '' @ thrown_message S e,
      imageUrl = [], originalUrl = url\<rparr>"
  by (rule extract_failed)

section \<open>C10: the message of a thrown value\<close>

text \<open>
  Claim C10. The normalisation in the catch branch is total: every thrown value gets a message,
  which is the message field of an Error instance, a thrown string itself, the stringified
  message property of an object that has one, and "Unknown error" for everything else; and the
  description of the placeholder is "Failed to extract information: " followed by that message.
\<close>

theorem extractProductInfo_message_total:
  "description (extractProductInfo S (Inl e) url)
     = ''Failed to extract information: '' @ thrown_message S e
   \<and> description (extractProductInfo S (Inl (JsError m)) url)
     = ''Failed to extract information: '' @ m
   \<and> description (extractProductInfo S (Inl (JsString s)) url)
     = ''Failed to extract information: '' @ s
   \<and> description (extractProductInfo S (Inl (JsObject ((''message'', v) # ps))) url)
     = ''Failed to extract information: '' @ S v
   \<and> description (extractProductInfo S (Inl (JsObject [])) url)
     = ''Failed to extract information: Unknown error''
   \<and> description (extractProductInfo S (Inl JsNull) url)
     = ''Failed to extract information: Unknown error''
   \<and> description (extractProductInfo S (Inl JsUndefined) url)
     = ''Failed to extract information: Unknown error''
   \<and> description (extractProductInfo S (Inl (JsNumber x)) url)
     = ''Failed to extract information: Unknown error''
   \<and> description (extractProductInfo S (Inl (JsBoolean t)) url)
     = ''Failed to extract information: Unknown error''"
  by (simp add: extract_failed)

section \<open>Lemmas on the scraping loop\<close>

lemma try_url_trace:
  "trace (snd (try_url S oc urls i st))
     = trace st @ trace (snd (try_url S oc urls i \<lparr>products = [], trace = []\<rparr>))"
  by (simp add: try_url_def emit_def Let_def split: option.splits)

lemma try_url_thrown:
  "fst (try_url S oc urls i st) = fst (try_url S oc urls i \<lparr>products = [], trace = []\<rparr>)"
  by (simp add: try_url_def emit_def Let_def split: option.splits)

lemma try_url_products:
  "products (snd (try_url S oc urls i st)) =
     products st @ (if navigates oc then [extractProductInfo S (scraper_run oc) (urls ! i)] else [])"
  by (simp add: try_url_def emit_def Let_def navigates_def split: option.splits)

lemma iteration_products:
  "products (iteration S b urls i st) =
     products st
     @ (if navigates (outcome b i)
        then [extractProductInfo S (scraper_run (outcome b i)) (urls ! i)] else [])"
  using try_url_products[of S "outcome b i" urls i st]
  by (cases "try_url S (outcome b i) urls i st")
     (simp add: iteration_def emit_def split: option.splits)

lemma iteration_trace:
  "trace (iteration S b urls i st) = trace st @ url_events S b urls i"
  using try_url_trace[of S "outcome b i" urls i st] try_url_thrown[of S "outcome b i" urls i st]
  by (cases "try_url S (outcome b i) urls i st";
      cases "try_url S (outcome b i) urls i \<lparr>products = [], trace = []\<rparr>")
     (auto simp add: iteration_def url_events_def emit_def split: option.splits)

lemma loop_products:
  "products (scrape_loop S b urls i st) =
     products st
     @ map (\<lambda>j. extractProductInfo S (scraper_run (outcome b j)) (urls ! j))
         (filter (\<lambda>j. navigates (outcome b j)) [i ..< length urls])"
proof (induction S b urls i st rule: scrape_loop.induct)
  case (1 S b urls i st)
  show ?case
  proof (cases "i < length urls")
    case True
    then have "[i ..< length urls] = i # [i + 1 ..< length urls]"
      by (simp add: upt_rec)
    with True 1 show ?thesis
      by (simp add: iteration_products scrape_loop.simps[of S b urls i st] del: scrape_loop.simps)
  next
    case False
    then show ?thesis by simp
  qed
qed

lemma loop_trace:
  "trace (scrape_loop S b urls i st) =
     trace st @ concat (map (url_events S b urls) [i ..< length urls])"
proof (induction S b urls i st rule: scrape_loop.induct)
  case (1 S b urls i st)
  show ?case
  proof (cases "i < length urls")
    case True
    then have "[i ..< length urls] = i # [i + 1 ..< length urls]"
      by (simp add: upt_rec)
    with True 1 show ?thesis
      by (simp add: iteration_trace scrape_loop.simps[of S b urls i st] del: scrape_loop.simps)
  next
    case False
    then show ?thesis by simp
  qed
qed

lemma url_events_completes:
  "completes (outcome b i) \<Longrightarrow>
   url_events S b urls i =
     [ContextOpened i, PageOpened i, Navigated i (urls ! i), Extracted i, ContextClose i]
     @ (if i + 1 < length urls then [Sleep (delay_of (Math_random (outcome b i)))] else [])"
  by (auto simp add: url_events_def iteration_def try_url_def emit_def Let_def
        completes_def navigates_def)

lemma url_events_sleeps:
  "sleeps (url_events S b urls i) =
     (if completes (outcome b i) \<and> i + 1 < length urls
      then [delay_of (Math_random (outcome b i))] else [])"
  by (auto simp add: url_events_def iteration_def try_url_def emit_def Let_def
        completes_def navigates_def split: option.splits)

text \<open>Once navigation succeeded, the context is closed whatever the extraction call did.\<close>

lemma url_events_navigates:
  "navigates (outcome b i) \<Longrightarrow>
   take 5 (url_events S b urls i) =
     [ContextOpened i, PageOpened i, Navigated i (urls ! i), Extracted i, ContextClose i]"
  by (auto simp add: url_events_def iteration_def try_url_def emit_def Let_def
        navigates_def split: option.splits)

lemma bit_length_upper: "n < 2 ^ bit_length n"
proof (induction n rule: bit_length.induct)
  case (1 n)
  show ?case
  proof (cases "n = 0")
    case True
    then show ?thesis by (simp add: bit_length.simps)
  next
    case False
    with 1 have "n div 2 < 2 ^ bit_length (n div 2)" by simp
    then have "n < 2 * 2 ^ bit_length (n div 2)" by arith
    with False show ?thesis by (simp add: bit_length.simps[of n])
  qed
qed

lemma bit_length_lower: "n \<noteq> 0 \<Longrightarrow> 2 ^ (bit_length n - 1) \<le> n"
proof (induction n rule: bit_length.induct)
  case (1 n)
  show ?case
  proof (cases "n div 2 = 0")
    case True
    with 1(2) have "n = 1" by arith
    then show ?thesis by (simp add: bit_length.simps)
  next
    case False
    with 1 have h: "2 ^ (bit_length (n div 2) - 1) \<le> n div 2" by simp
    from False have p: "bit_length (n div 2) = Suc (bit_length (n div 2) - 1)"
      by (simp add: bit_length.simps[of "n div 2"])
    have "bit_length n - 1 = bit_length (n div 2)"
      using 1(2) by (simp add: bit_length.simps[of n])
    also note p
    finally have "(2::nat) ^ (bit_length n - 1) = 2 * 2 ^ (bit_length (n div 2) - 1)" by simp
    with h show ?thesis by arith
  qed
qed

lemma bit_length_le: "n < 2 ^ k \<Longrightarrow> bit_length n \<le> k"
proof (cases "n = 0")
  case True
  then show ?thesis by (simp add: bit_length.simps)
next
  case False
  assume "n < 2 ^ k"
  with bit_length_lower[OF False] have "(2::nat) ^ (bit_length n - 1) < 2 ^ k"
    by (rule le_less_trans)
  then have "bit_length n - 1 < k" by (rule power_less_imp_less_exp[rotated]) simp
  then show ?thesis by arith
qed

lemma round_shift_less:
  assumes "0 < s" "n + 2 ^ (s - 1) < N * 2 ^ s"
  shows "round_shift n s < N"
proof -
  let ?q = "n div 2 ^ s" and ?r = "n mod 2 ^ s" and ?h = "(2::nat) ^ (s - 1)"
  have n: "n = ?q * 2 ^ s + ?r" by (rule div_mult_mod_eq[symmetric])
  from assms(1) have p: "(2::nat) ^ s = 2 * ?h"
    by (cases s) simp_all
  have q: "?q < N"
  proof (rule ccontr)
    assume "\<not> ?q < N"
    then have "N * 2 ^ s \<le> ?q * 2 ^ s" by simp
    also have "\<dots> \<le> n" by simp
    finally show False using assms(2) by simp
  qed
  have u: "?q + 1 < N" if "?h \<le> ?r"
  proof (rule ccontr)
    assume "\<not> ?q + 1 < N"
    then have "N \<le> ?q + 1" by simp
    then have "N * 2 ^ s \<le> (?q + 1) * 2 ^ s" by (rule mult_le_mono1)
    also have "\<dots> = ?q * 2 ^ s + 2 * ?h" using p by (simp add: algebra_simps)
    also have "\<dots> \<le> ?q * 2 ^ s + ?r + ?h" using that by simp
    also have "\<dots> = n + ?h" using n by simp
    finally show False using assms(2) by simp
  qed
  show ?thesis
    using assms(1) q u by (auto simp add: round_shift_def Let_def)
qed

lemma double_value_nonneg: "0 \<le> double_value d"
  by (cases d) (simp add: double_value_def)

lemma product_below_2000:
  assumes "unit_double r"
  shows "double_value (double_times r (Double 2000 0)) < 2000"
proof (cases r)
  case (Double m e)
  with assms have m: "m < 2 ^ 53" and e: "- 1074 \<le> e" and v: "double_value (Double m e) < 1"
    by (simp_all add: unit_double_def)
  let ?n = "m * 2000"
  define s where "s = nat (int (bit_length ?n) - 53)"
  from e have s: "nat (max (int (bit_length ?n) - 53) (- 1074 - e)) = s"
    unfolding s_def by arith
  have "double_times r (Double 2000 0) =
      (let s = nat (max (int (bit_length ?n) - 53) (- 1074 - e))
       in Double (round_shift ?n s) (e + int s))"
    by (simp add: Double double_times_def Let_def)
  then have t: "double_times r (Double 2000 0) = Double (round_shift ?n s) (e + int s)"
    by (simp only: s Let_def)
  show ?thesis
  proof (cases "m = 0")
    case True
    then have "s = 0" by (simp add: s_def bit_length.simps)
    with True show ?thesis
      by (simp add: t round_shift_def double_value_def)
  next
    case False
    have neg: "e < 0"
    proof (rule ccontr)
      assume "\<not> e < 0"
      with v have "real m * 2 ^ nat e < 1" by (simp add: double_value_def)
      moreover have "1 \<le> real m" using False by simp
      then have "1 * 1 \<le> real m * 2 ^ nat e" by (rule mult_mono) simp_all
      ultimately show False by simp
    qed
    define k where "k = nat (- e)"
    from neg have k: "0 < k" "e = - int k" by (simp_all add: k_def)
    from v neg have "real m / 2 ^ k < 1" by (simp add: double_value_def k_def)
    then have rm: "real m < 2 ^ k" by simp
    then have mk: "m < 2 ^ k" by (metis of_nat_less_iff of_nat_numeral of_nat_power)
    show ?thesis
    proof (cases "s = 0")
      case True
      have "real ?n / 2 ^ k < 2000"
        using rm by (simp add: field_simps)
      with True neg show ?thesis
        by (simp add: t round_shift_def double_value_def k_def)
    next
      case pos: False
      then have L: "bit_length ?n = 53 + s" unfolding s_def by arith
      from False have n0: "?n \<noteq> 0" by simp
      have "(2::nat) ^ (52 + s) = 2 ^ (bit_length ?n - 1)" by (simp add: L)
      also have "\<dots> \<le> ?n" by (rule bit_length_lower[OF n0])
      finally have lo: "2 ^ (52 + s) \<le> ?n" .
      from m have "?n < 2 ^ 53 * 2 ^ 11" by simp
      then have "?n < 2 ^ 64" by simp
      then have "bit_length ?n \<le> 64" by (rule bit_length_le)
      with L have s11: "s \<le> 11" by arith
      note lo
      also from mk have "?n < 2000 * 2 ^ k" by simp
      also have "\<dots> < 2 ^ 11 * 2 ^ k" by simp
      also have "\<dots> = 2 ^ (11 + k)" by (simp add: power_add)
      finally have "(2::nat) ^ (52 + s) < 2 ^ (11 + k)" .
      then have "52 + s < 11 + k" by (rule power_less_imp_less_exp[rotated]) simp
      then have sk: "s < k" by arith
      let ?N = "2000 * 2 ^ (k - s) :: nat"
      have "(2::nat) ^ (k - s) * 2 ^ s = 2 ^ k"
        using sk by (simp add: power_add[symmetric])
      then have N: "?N * 2 ^ s = 2000 * 2 ^ k" by (simp add: mult.assoc)
      from s11 have "(2::nat) ^ (s - 1) \<le> 2 ^ 10"
        by (intro power_increasing) simp_all
      then have h: "(2::nat) ^ (s - 1) < 2000" by simp
      from mk have "m + 1 \<le> 2 ^ k" by simp
      then have "2000 * (m + 1) \<le> 2000 * 2 ^ k" by (rule mult_le_mono2)
      with h have "?n + 2 ^ (s - 1) < ?N * 2 ^ s" unfolding N by simp
      with pos have "round_shift ?n s < ?N" by (intro round_shift_less) simp_all
      then have "real (round_shift ?n s) < real ?N" by (simp only: of_nat_less_iff)
      then have "real (round_shift ?n s) / 2 ^ (k - s) < 2000"
        by (simp add: field_simps)
      moreover from sk k have "e + int s < 0" "nat (- (e + int s)) = k - s" by simp_all
      ultimately show ?thesis
        by (simp add: t double_value_def)
    qed
  qed
qed

lemma delay_range: "unit_double r \<Longrightarrow> 1000 \<le> delay_of r \<and> delay_of r \<le> 2999"
  using product_below_2000[of r] double_value_nonneg[of "double_times r (Double 2000 0)"]
  unfolding delay_of_def by (simp add: floor_less_iff le_floor_iff)

lemma bit_length_half: "bit_length 9007199254740992000 = 63"
  by (simp add: bit_length.simps)

lemma round_half: "round_shift 9007199254740992000 10 = 8796093022208000"
  by (simp add: round_shift_def Let_def)

lemma half_times:
  "double_times (Double 4503599627370496 (- 53)) (Double 2000 0) = Double 8796093022208000 (- 43)"
  by (simp add: double_times_def bit_length_half round_half Let_def)

lemma delay_half: "delay_of (Double 4503599627370496 (- 53)) = 2000"
  by (simp add: delay_of_def half_times double_value_def)

lemma bit_length_top: "bit_length 18014398509481982000 = 64"
  by (simp add: bit_length.simps)

lemma round_top: "round_shift 18014398509481982000 11 = 8796093022207999"
  by (simp add: round_shift_def Let_def)

lemma top_times:
  "double_times (Double 9007199254740991 (- 53)) (Double 2000 0) = Double 8796093022207999 (- 42)"
  by (simp add: double_times_def bit_length_top round_top Let_def)

lemma delay_top: "delay_of (Double 9007199254740991 (- 53)) = 2999"
  by (simp add: delay_of_def top_times double_value_def)

lemma bit_length_up: "bit_length 1089871109823660000 = 60"
  by (simp add: bit_length.simps)

lemma round_up: "round_shift 1089871109823660000 7 = 8514618045497344"
  by (simp add: round_shift_def Let_def)

lemma up_times:
  "double_times (Double 544935554911830 (- 52)) (Double 2000 0) = Double 8514618045497344 (- 45)"
  by (simp add: double_times_def bit_length_up round_up Let_def)

text \<open>
  A product that rounds up to an integer: here the exact product is below 242, and its floor
  would give 1241.
\<close>

lemma delay_up: "delay_of (Double 544935554911830 (- 52)) = 1242"
  by (simp add: delay_of_def up_times double_value_def)

lemma sleeps_append: "sleeps (xs @ ys) = sleeps xs @ sleeps ys"
  by (induction xs rule: sleeps.induct) simp_all

lemma sleeps_concat: "sleeps (concat xss) = concat (map sleeps xss)"
  by (induction xss) (simp_all add: sleeps_append)

lemma concat_singletons:
  "concat (map (\<lambda>i. if Q i then [f i] else []) xs) = map f (filter Q xs)"
  by (induction xs) simp_all

lemma filter_before_last:
  "filter (\<lambda>i. P i \<and> i + 1 < n) [0 ..< n] = filter P [0 ..< n - 1]"
proof (cases n)
  case 0
  then show ?thesis by simp
next
  case (Suc m)
  have "filter (\<lambda>i. P i \<and> i + 1 < Suc m) [0 ..< m] = filter P [0 ..< m]"
    by (rule filter_cong) auto
  with Suc show ?thesis by simp
qed

lemma upt_split: "i < n \<Longrightarrow> [0 ..< n] = [0 ..< i] @ i # [i + 1 ..< n]"
proof -
  assume "i < n"
  then have "[0 ..< n] = [0 ..< i] @ [i ..< n]"
    using upt_add_eq_append[of 0 i "n - i"] by simp
  with \<open>i < n\<close> show ?thesis by (simp add: upt_conv_Cons)
qed

lemma scrapeProducts_returns:
  assumes "env_truthy (OPENAI_API_KEY b)" "chromium_launch b = None" "browser_close b = None"
  shows "scrapeProducts S b urls =
     (Inr (expected_records S b urls),
      [BrowserLaunch] @ concat (map (url_events S b urls) [0 ..< length urls]) @ [BrowserClose])"
  using assms
  by (simp add: scrapeProducts_def Let_def loop_products loop_trace expected_records_def
        del: scrape_loop.simps)

lemma scrapeProducts_trace:
  assumes "env_truthy (OPENAI_API_KEY b)" "chromium_launch b = None"
  shows "snd (scrapeProducts S b urls) =
      [BrowserLaunch] @ concat (map (url_events S b urls) [0 ..< length urls]) @ [BrowserClose]"
  using assms
  by (simp add: scrapeProducts_def Let_def loop_trace del: scrape_loop.simps split: option.splits)

lemmas fixture_defs = browser_with_def page_ok_def page_unreachable_def page_unreadable_def

lemmas run_defs = scrapeProducts_def iteration_def try_url_def emit_def env_truthy_def Let_def

section \<open>C1: one record per URL\<close>

text \<open>
  Claim C1, as stated: for every URL list the output has the length of the input, a failed URL
  giving a placeholder in its position. It fails where navigation fails: with two URLs of which
  the first times out, the only record returned is that of the second URL.
\<close>

theorem scrapeProducts_omits_unreachable:
  "fst (scrapeProducts plain_String
          (browser_with (\<lambda>i. if i = 0 then page_unreachable else page_ok))
          [''http://a'', ''http://b''])
     = Inr [listing\<lparr>originalUrl := ''http://b''\<rparr>]"
  by (simp add: run_defs fixture_defs extractProductInfo_def)

text \<open>
  Claim C1, amended. When the credential is set, the browser launches and closes without error,
  and for every URL the context, the page and the navigation succeed, \<open>scrapeProducts\<close> returns
  a list of the length of the input whose originalUrl fields are the input list, and whose
  record at each position is what \<open>extractProductInfo\<close> gives for the URL at that position:
  the extracted record, or the placeholder when the extraction call throws.
\<close>

theorem scrapeProducts_records:
  assumes "env_truthy (OPENAI_API_KEY b)" "chromium_launch b = None" "browser_close b = None"
    and "\<forall>j < length urls. navigates (outcome b j)"
  shows "\<exists>ps. fst (scrapeProducts S b urls) = Inr ps
           \<and> length ps = length urls
           \<and> map originalUrl ps = urls
           \<and> (\<forall>j < length urls.
                 ps ! j = extractProductInfo S (scraper_run (outcome b j)) (urls ! j))"
proof -
  let ?ps = "expected_records S b urls"
  have r: "fst (scrapeProducts S b urls) = Inr ?ps"
    using scrapeProducts_returns[OF assms(1-3)] by simp
  from assms(4)
  have i: "filter (\<lambda>j. navigates (outcome b j)) [0 ..< length urls] = [0 ..< length urls]"
    by simp
  have e: "?ps = map (\<lambda>j. extractProductInfo S (scraper_run (outcome b j)) (urls ! j))
                   [0 ..< length urls]"
    by (simp only: expected_records_def i)
  have l: "length ?ps = length urls"
    by (simp add: e)
  have u: "map originalUrl ?ps = urls"
    by (simp add: e extract_originalUrl comp_def map_nth)
  have n: "\<forall>j < length urls.
             ?ps ! j = extractProductInfo S (scraper_run (outcome b j)) (urls ! j)"
    by (simp add: e)
  from r l u n show ?thesis by blast
qed

theorem scrapeProducts_records_witness:
  "fst (scrapeProducts plain_String
          (browser_with (\<lambda>i. if i = 0 then page_unreadable else page_ok))
          [''http://a'', ''http://b''])
     = Inr [extractProductInfo plain_String (Inl (JsError ''No object generated'')) ''http://a'',
            listing\<lparr>originalUrl := ''http://b''\<rparr>]"
proof -
  let ?b = "browser_with (\<lambda>i. if i = 0 then page_unreadable else page_ok)"
  let ?urls = "[''http://a'', ''http://b'']"
  have h: "env_truthy (OPENAI_API_KEY ?b)" "chromium_launch ?b = None" "browser_close ?b = None"
    "\<forall>j < length ?urls. navigates (outcome ?b j)"
    by (simp_all add: fixture_defs env_truthy_def navigates_def)
  from scrapeProducts_records[OF h, of plain_String] obtain ps where
    p: "fst (scrapeProducts plain_String ?b ?urls) = Inr ps" "length ps = length ?urls"
       "\<forall>j < length ?urls.
          ps ! j = extractProductInfo plain_String (scraper_run (outcome ?b j)) (?urls ! j)"
    by blast
  from p(3)
  have "ps ! 0 = extractProductInfo plain_String (Inl (JsError ''No object generated'')) ''http://a''"
    and "ps ! 1 = listing\<lparr>originalUrl := ''http://b''\<rparr>"
    by (simp_all add: fixture_defs extractProductInfo_def)
  with p(2)
  have "ps = [extractProductInfo plain_String (Inl (JsError ''No object generated'')) ''http://a'',
              listing\<lparr>originalUrl := ''http://b''\<rparr>]"
    by (cases ps; cases "tl ps") auto
  with p(1) show ?thesis by simp
qed

section \<open>C2: closing the browsing context\<close>

text \<open>
  Claim C2: every iteration that opened a browsing context closes it before the next URL, also
  when navigation fails. The source calls \<^verbatim>\<open>context.close()\<close> inside the \<^verbatim>\<open>try\<close> block, after
  the navigation, under the comment "Close the context to clean up". With two URLs of which the
  first times out, the context of URL 0 is opened and the next event of the run is the log of
  the failure, then the context of URL 1: the first context is never closed by the loop.
\<close>

theorem context_left_open_after_failed_navigation:
  "snd (scrapeProducts plain_String
          (browser_with (\<lambda>i. if i = 0 then page_unreachable else page_ok))
          [''http://a'', ''http://b''])
     = [BrowserLaunch,
        ContextOpened 0, PageOpened 0, Console (FailedUrl 0 (JsError ''Timeout 30000ms exceeded'')),
        ContextOpened 1, PageOpened 1, Navigated 1 ''http://b'', Extracted 1, ContextClose 1,
        BrowserClose]"
  by (simp add: run_defs fixture_defs)

section \<open>C3: the delay between requests\<close>

text \<open>
  Claim C3, as stated: after every URL but the last the run sleeps, for a time drawn from 1000
  to 3000 milliseconds. With two URLs of which the first times out, the run has no delay at
  all; and the greatest double below 1, \<open>(2 ^ 53 - 1) / 2 ^ 53\<close>, gives 2999 milliseconds, not
  3000.
\<close>

theorem no_delay_after_failed_url:
  "sleeps (snd (scrapeProducts plain_String
                  (browser_with (\<lambda>i. if i = 0 then page_unreachable else page_ok))
                  [''http://a'', ''http://b'']))
     = []
   \<and> delay_of (Double 9007199254740991 (- 53)) = 2999"
  by (simp add: run_defs fixture_defs delay_top)

text \<open>
  Claim C3, amended. With \<^verbatim>\<open>Math.random()\<close> a double in \<open>[0, 1)\<close>: for every URL but the last
  whose iteration throws nothing, the run sleeps \<^verbatim>\<open>Math.floor(r * 2000) + 1000\<close> milliseconds,
  \<open>r\<close> being the random value of that iteration and the product that of doubles, right after
  the close of the context of that URL and right before the effects of the next URL; every
  delay of the run is an integer from 1000 to 2999; and the effects of the last URL, which end
  the loop, hold no delay.
\<close>

theorem inter_request_delays:
  assumes "env_truthy (OPENAI_API_KEY b)" "chromium_launch b = None"
    and "\<forall>i < length urls. unit_double (Math_random (outcome b i))"
  shows "(\<forall>i. i + 1 < length urls \<and> completes (outcome b i) \<longrightarrow>
            (\<exists>pre. snd (scrapeProducts S b urls) =
                 pre @ [ContextClose i, Sleep (delay_of (Math_random (outcome b i)))]
                 @ concat (map (url_events S b urls) [i + 1 ..< length urls]) @ [BrowserClose]))
         \<and> (\<forall>d \<in> set (sleeps (snd (scrapeProducts S b urls))). 1000 \<le> d \<and> d \<le> 2999)
         \<and> (urls \<noteq> [] \<longrightarrow>
               (\<exists>pre. snd (scrapeProducts S b urls) =
                  pre @ url_events S b urls (length urls - 1) @ [BrowserClose]))
         \<and> sleeps (url_events S b urls (length urls - 1)) = []"
proof -
  let ?n = "length urls"
  let ?tr = "snd (scrapeProducts S b urls)"
  have tr: "?tr = [BrowserLaunch] @ concat (map (url_events S b urls) [0 ..< ?n]) @ [BrowserClose]"
    by (rule scrapeProducts_trace[OF assms(1,2)])
  have s: "sleeps ?tr = map (\<lambda>i. delay_of (Math_random (outcome b i)))
             (filter (\<lambda>i. completes (outcome b i)) [0 ..< ?n - 1])"
  proof -
    have "sleeps ?tr = concat (map (\<lambda>i. sleeps (url_events S b urls i)) [0 ..< ?n])"
      unfolding tr by (simp add: sleeps_append sleeps_concat comp_def)
    also have "\<dots> = map (\<lambda>i. delay_of (Math_random (outcome b i)))
                      (filter (\<lambda>i. completes (outcome b i) \<and> i + 1 < ?n) [0 ..< ?n])"
      unfolding url_events_sleeps by (rule concat_singletons)
    finally show ?thesis by (simp only: filter_before_last)
  qed
  have r: "\<forall>d \<in> set (sleeps ?tr). 1000 \<le> d \<and> d \<le> 2999"
    unfolding s using assms(3) delay_range by auto
  have o: "\<exists>pre. ?tr = pre @ [ContextClose i, Sleep (delay_of (Math_random (outcome b i)))]
                 @ concat (map (url_events S b urls) [i + 1 ..< ?n]) @ [BrowserClose]"
    if "i + 1 < ?n \<and> completes (outcome b i)" for i
  proof -
    from that have "[0 ..< ?n] = [0 ..< i] @ i # [i + 1 ..< ?n]"
      using upt_split[of i ?n] by simp
    then have "?tr = ([BrowserLaunch] @ concat (map (url_events S b urls) [0 ..< i]))
                 @ url_events S b urls i
                 @ concat (map (url_events S b urls) [i + 1 ..< ?n]) @ [BrowserClose]"
      unfolding tr by simp
    also have "url_events S b urls i =
        [ContextOpened i, PageOpened i, Navigated i (urls ! i), Extracted i]
        @ [ContextClose i, Sleep (delay_of (Math_random (outcome b i)))]"
      using that by (simp add: url_events_completes)
    finally show ?thesis by (metis append.assoc)
  qed
  have f: "\<exists>pre. ?tr = pre @ url_events S b urls (?n - 1) @ [BrowserClose]" if "urls \<noteq> []"
  proof -
    from that have "[0 ..< ?n] = [0 ..< ?n - 1] @ [?n - 1]"
      by (metis Suc_diff_1 length_greater_0_conv upt_Suc_append le0)
    then have "?tr = ([BrowserLaunch] @ concat (map (url_events S b urls) [0 ..< ?n - 1]))
        @ url_events S b urls (?n - 1) @ [BrowserClose]"
      unfolding tr by simp
    then show ?thesis by blast
  qed
  have z: "sleeps (url_events S b urls (?n - 1)) = []"
  proof -
    have "\<not> (?n - 1) + 1 < ?n" by arith
    then show ?thesis by (simp only: url_events_sleeps simp_thms if_False)
  qed
  from o r f z show ?thesis by blast
qed

theorem inter_request_delays_witness:
  "\<exists>pre. snd (scrapeProducts plain_String (browser_with (\<lambda>i. page_ok))
                  [''http://a'', ''http://b'', ''http://c'']) =
     pre @ [ContextClose 0, Sleep 2000]
     @ url_events plain_String (browser_with (\<lambda>i. page_ok))
         [''http://a'', ''http://b'', ''http://c''] 1
     @ url_events plain_String (browser_with (\<lambda>i. page_ok))
         [''http://a'', ''http://b'', ''http://c''] 2
     @ [BrowserClose]"
proof -
  let ?b = "browser_with (\<lambda>i. page_ok)"
  let ?urls = "[''http://a'', ''http://b'', ''http://c'']"
  have h: "env_truthy (OPENAI_API_KEY ?b)" "chromium_launch ?b = None"
    "\<forall>i < length ?urls. unit_double (Math_random (outcome ?b i))"
    by (simp_all add: fixture_defs env_truthy_def unit_double_def double_value_def)
  have c: "0 + 1 < length ?urls \<and> completes (outcome ?b 0)"
    by (simp add: fixture_defs completes_def navigates_def)
  from inter_request_delays[OF h, of plain_String] c
  have "\<exists>pre. snd (scrapeProducts plain_String ?b ?urls) =
                 pre @ [ContextClose 0, Sleep (delay_of (Math_random (outcome ?b 0)))]
                 @ concat (map (url_events plain_String ?b ?urls) [0 + 1 ..< length ?urls])
                 @ [BrowserClose]"
    by blast
  moreover have "delay_of (Math_random (outcome ?b 0)) = 2000"
    by (simp add: fixture_defs delay_half)
  moreover have "[0 + 1 ..< length ?urls] = [1, 2]"
    by (simp add: upt_rec)
  ultimately show ?thesis by (simp add: numeral_2_eq_2)
qed

section \<open>Lemmas on the price statistics\<close>







lemmas price_defs = price_number_def parseFloat_def strip_price_def is_digit_def digits_value_def





section \<open>C5: the scope of the price statistics\<close>



section \<open>C6: quoting in the CSV output\<close>

lemma read_double_quotes: "read_quoted_body (double_quotes cell @ [quote]) = Some cell"
  by (induction cell rule: induct_list012) (auto simp add: double_quotes_def)

lemma read_csv_cell_csv_cell: "read_csv_cell (csv_cell cell) = Some cell"
  by (cases cell)
     (simp_all add: read_csv_cell_def csv_cell_def read_double_quotes del: read_quoted_body.simps)

text \<open>
  Claim C6. Every line of the CSV output after the header is the cells of one record joined by
  commas. An empty field gives an empty cell without quotes. A non-empty field gives its text
  between two double quotes, each double quote of the text written twice and every other
  character unchanged, so that a reader of quoted CSV fields gets the field back. The field
  \<^verbatim>\<open>He said "hi", ok\<close> gives \<^verbatim>\<open>"He said ""hi"", ok"\<close>.
\<close>

theorem csv_cell_quoting:
  \<open>csv_cell [] = []
   \<and> csv_cell (c # cs) = [quote] @ double_quotes (c # cs) @ [quote]
   \<and> double_quotes (quote # cs) = quote # quote # double_quotes cs
   \<and> double_quotes (xs @ ys) = double_quotes xs @ double_quotes ys
   \<and> length (filter (\<lambda>x. x = quote) (double_quotes cell))
       = 2 * length (filter (\<lambda>x. x = quote) cell)
   \<and> filter (\<lambda>x. x \<noteq> quote) (double_quotes cell) = filter (\<lambda>x. x \<noteq> quote) cell
   \<and> read_csv_cell (csv_cell cell) = Some cell
   \<and> csvContent ps =
       join [CHR 0x0A]
         (join '','' headers # map (\<lambda>p. join '','' (map csv_cell (csv_row p))) ps)
   \<and> csv_cell ''He said "hi", ok'' = ''"He said ""hi"", ok"''\<close>
proof -
  have e: "csv_cell [] = []"
    by (simp add: csv_cell_def)
  have w: "csv_cell (c # cs) = [quote] @ double_quotes (c # cs) @ [quote]"
    by (simp add: csv_cell_def)
  have q: "double_quotes (quote # cs) = quote # quote # double_quotes cs"
    by (simp add: double_quotes_def)
  have p: "double_quotes (xs @ ys) = double_quotes xs @ double_quotes ys"
    by (simp add: double_quotes_def)
  have a: "length (filter (\<lambda>x. x = quote) (double_quotes cell))
             = 2 * length (filter (\<lambda>x. x = quote) cell)"
    by (induction cell) (simp_all add: double_quotes_def)
  have b: "filter (\<lambda>x. x \<noteq> quote) (double_quotes cell) = filter (\<lambda>x. x \<noteq> quote) cell"
    by (induction cell) (simp_all add: double_quotes_def)
  have r: "read_csv_cell (csv_cell cell) = Some cell"
    by (rule read_csv_cell_csv_cell)
  have f: "csvContent ps =
      join [CHR 0x0A]
        (join '','' headers # map (\<lambda>p. join '','' (map csv_cell (csv_row p))) ps)"
    by (simp add: csvContent_def comp_def)
  have x: \<open>csv_cell ''He said "hi", ok'' = ''"He said ""hi"", ok"''\<close>
    by (simp add: csv_cell_def double_quotes_def quote_def)
  from e w q p a b r f x show ?thesis by (intro conjI)
qed

section \<open>Lemmas on lines and trimming\<close>

lemma join_split_lines: "join [CHR 0x0A] (split_lines s) = s"
proof (induction s)
  case Nil
  show ?case by simp
next
  case (Cons c s)
  then show ?case
    by (cases "split_lines s"; cases "tl (split_lines s)") (auto split: list.splits)
qed

lemma split_lines_no_newline: "l \<in> set (split_lines s) \<Longrightarrow> CHR 0x0A \<notin> set l"
  by (induction s arbitrary: l) (auto split: if_splits list.splits)

lemma trim_decompose:
  "\<exists>pre post. s = pre @ trim s @ post \<and> list_all is_space pre \<and> list_all is_space post"
proof -
  let ?a = "takeWhile is_space s" and ?r = "dropWhile is_space s"
  let ?b = "takeWhile is_space (rev ?r)"
  have "rev ?r = ?b @ dropWhile is_space (rev ?r)" by simp
  then have "?r = rev (dropWhile is_space (rev ?r)) @ rev ?b"
    by (metis rev_append rev_rev_ident)
  then have "s = ?a @ trim s @ rev ?b"
    unfolding trim_def by (metis takeWhile_dropWhile_id)
  moreover have "list_all is_space ?a" "list_all is_space (rev ?b)"
    by (auto simp add: list_all_iff dest: set_takeWhileD)
  ultimately show ?thesis by blast
qed

lemma trim_ends:
  "trim s \<noteq> [] \<Longrightarrow> \<not> is_space (hd (trim s)) \<and> \<not> is_space (last (trim s))"
proof -
  assume n: "trim s \<noteq> []"
  let ?r = "dropWhile is_space s"
  let ?d = "dropWhile is_space (rev ?r)"
  from n have d: "?d \<noteq> []" by (simp add: trim_def)
  then have l: "\<not> is_space (hd ?d)" by (rule hd_dropWhile)
  from d have "last (trim s) = hd ?d" by (simp add: trim_def last_rev)
  moreover
  from d have r: "?r \<noteq> []" by (metis dropWhile.simps(1) rev.simps(1))
  then have "\<not> is_space (hd ?r)" by (rule hd_dropWhile)
  moreover have "hd (trim s) = hd ?r"
  proof -
    from r obtain x xs where x: "?r = x # xs" by (cases ?r) auto
    with \<open>\<not> is_space (hd ?r)\<close> have nx: "\<not> is_space x" by simp
    have "rev ?r = rev xs @ [x]" using x by simp
    then have "?d = dropWhile is_space (rev xs) @ [x]"
      using nx by (simp add: dropWhile_append)
    then show ?thesis using x by (simp add: trim_def)
  qed
  ultimately show ?thesis using l by simp
qed

lemma text_urls_eq:
  "text_urls content =
     map trim (filter (\<lambda>l. trim l \<noteq> [] \<and> startsWith (trim l) ''http'') (split_lines content))"
  by (simp add: text_urls_def filter_map comp_def)

lemma split_url_file:
  "split_lines url_file = [[], ''# my list'', ''http://a'' @ [CHR 0x0D], ''   https://b  '', []]"
  by (simp add: url_file_def)

section \<open>C7: a file that is not JSON\<close>

text \<open>
  Claim C7. When the file is read and \<^verbatim>\<open>JSON.parse\<close> throws on its content, \<open>readUrlsFromFile\<close>
  returns, in their order in the file, the lines that after trimming are not empty and begin
  with "http", each in its trimmed form, and nothing else; it logs no error. (When no line
  qualifies the list is empty, and \<open>main\<close> then scrapes the example URLs.)
\<close>

theorem readUrlsFromFile_text:
  assumes "read_file path = Inr content" "parse content = Inl e"
  shows "readUrlsFromFile S read_file parse path =
     (map trim
        (filter (\<lambda>l. trim l \<noteq> [] \<and> startsWith (trim l) ''http'') (split_lines content)),
      [])"
  using assms by (simp add: readUrlsFromFile_def parse_urls_def Let_def text_urls_eq)

theorem readUrlsFromFile_text_witness:
  "readUrlsFromFile plain_String (\<lambda>p. Inr url_file) (\<lambda>c. Inl (JsError ''Unexpected token''))
      ''urls.txt''
     = ([''http://a'', ''https://b''], [])"
  using readUrlsFromFile_text[of "\<lambda>p. Inr url_file" "''urls.txt''" url_file
          "\<lambda>c. Inl (JsError ''Unexpected token'')" "JsError ''Unexpected token''" plain_String]
  by (simp add: split_url_file trim_def is_space_def startsWith_def)

section \<open>Lemmas on main\<close>

lemma ensure_events:
  "filter (\<lambda>ev. browser_work ev \<or> file_written ev) (snd (ensureOutputDirectoryExists h)) = []"
  by (simp add: ensureOutputDirectoryExists_def Let_def split: option.splits)

lemma scrapeProducts_no_key:
  "\<not> env_truthy (OPENAI_API_KEY b) \<Longrightarrow>
   scrapeProducts S b urls
     = (Inl (JsError ''OPENAI_API_KEY environment variable is not set''), [])"
  by (simp add: scrapeProducts_def)

lemma run_pipeline_no_key:
  "\<not> env_truthy (OPENAI_API_KEY b) \<Longrightarrow>
   run_pipeline S h b urls dir prefix =
     [Console (ErrorInMain (JsError ''OPENAI_API_KEY environment variable is not set''))]"
  by (simp add: run_pipeline_def scrapeProducts_no_key Let_def)

lemma filter_console: "filter (\<lambda>ev. browser_work ev \<or> file_written ev) (map Console ls) = []"
  by (induction ls) simp_all

lemma parseArgs_demo:
  "parseArgs [''-i'', ''urls.txt'', ''-o'', ''gaming'']
     = \<lparr>inputFile = Some ''urls.txt'', outputPrefix = Some ''gaming'', showHelp = False\<rparr>"
  by (simp add: parseArgs_def)

lemma ensure_demo:
  "ensureOutputDirectoryExists (demo_host args c)
     = (Inr ''/work/output/2025-01-02T03-04-05'',
        [MkDir ''/work/output'', MkDir ''/work/output/2025-01-02T03-04-05''])"
  by (simp add: ensureOutputDirectoryExists_def demo_host_def timestamp_of_def Let_def)

lemma urlsToScrape_demo:
  "urlsToScrape plain_String (demo_host [''-i'', ''urls.txt'', ''-o'', ''gaming''] url_file)
      \<lparr>inputFile = Some ''urls.txt'', outputPrefix = Some ''gaming'', showHelp = False\<rparr>
     = ([''http://a'', ''https://b''], [])"
  by (simp add: urlsToScrape_def demo_host_def readUrlsFromFile_def parse_urls_def text_urls_def
        split_url_file trim_def is_space_def startsWith_def)

lemma argv_demo: "argv (demo_host args c) = args"
  by (simp add: demo_host_def)

text \<open>A run with the credential set, for comparison: the browser works and both files are written.\<close>

lemma main_good_run:
  "main plain_String (demo_host [''-i'', ''urls.txt'', ''-o'', ''gaming''] url_file)
      (browser_with (\<lambda>i. page_ok)) =
     [MkDir ''/work/output'', MkDir ''/work/output/2025-01-02T03-04-05'',
      BrowserLaunch,
      ContextOpened 0, PageOpened 0, Navigated 0 ''http://a'', Extracted 0, ContextClose 0,
      Sleep 2000,
      ContextOpened 1, PageOpened 1, Navigated 1 ''https://b'', Extracted 1, ContextClose 1,
      BrowserClose,
      Console (TotalProcessed 2), Console (SuccessfulExtractions 2 2),
      Console (PriceRange 100 100), Console (AveragePrice 100),
      Console (Sample 1 (listing\<lparr>originalUrl := ''http://a''\<rparr>)),
      Console (Sample 2 (listing\<lparr>originalUrl := ''https://b''\<rparr>)),
      WriteFile ''/work/output/2025-01-02T03-04-05/gaming.json'' ''[]'',
      WriteFile ''/work/output/2025-01-02T03-04-05/gaming.csv''
         (csvContent [listing\<lparr>originalUrl := ''http://a''\<rparr>,
                      listing\<lparr>originalUrl := ''https://b''\<rparr>]),
      Console (ResultsSaved ''/work/output/2025-01-02T03-04-05/gaming.json''
                 ''/work/output/2025-01-02T03-04-05/gaming.csv'')]"
proof -
  have s: "scrapeProducts plain_String (browser_with (\<lambda>i. page_ok)) [''http://a'', ''https://b''] =
     (Inr [listing\<lparr>originalUrl := ''http://a''\<rparr>, listing\<lparr>originalUrl := ''https://b''\<rparr>],
      [BrowserLaunch,
       ContextOpened 0, PageOpened 0, Navigated 0 ''http://a'', Extracted 0, ContextClose 0,
       Sleep 2000,
       ContextOpened 1, PageOpened 1, Navigated 1 ''https://b'', Extracted 1, ContextClose 1,
       BrowserClose])"
    by (simp add: run_defs fixture_defs extractProductInfo_def delay_half)
  have d: "displayProducts
        [listing\<lparr>originalUrl := ''http://a''\<rparr>, listing\<lparr>originalUrl := ''https://b''\<rparr>]
     = [TotalProcessed 2, SuccessfulExtractions 2 2, PriceRange 100 100, AveragePrice 100,
        Sample 1 (listing\<lparr>originalUrl := ''http://a''\<rparr>),
        Sample 2 (listing\<lparr>originalUrl := ''https://b''\<rparr>)]"
    by (simp add: displayProducts_def price_statistics_def successful_count_def prices_of_def
          Let_def listing_def price_defs upt_rec)
  show ?thesis
    by (simp add: main_def argv_demo parseArgs_demo ensure_demo urlsToScrape_demo
          run_pipeline_def s d outputPrefix_of_def Let_def)
       (simp add: demo_host_def saveProductsToFile_def saveProductsToCSV_def Let_def)
qed

section \<open>C8: a run without the credential\<close>

text \<open>
  Claim C8. When the variable \<^verbatim>\<open>OPENAI_API_KEY\<close> is absent, a run does no work of the browser
  and writes no file: unless it only prints the usage, or creating the output directory fails,
  its effects are the directories made, the lines of reading the URL file, and the log of the
  error "OPENAI_API_KEY environment variable is not set".
\<close>

theorem main_without_credential:
  assumes "OPENAI_API_KEY b = None"
  shows "filter (\<lambda>ev. browser_work ev \<or> file_written ev) (main S h b) = []
     \<and> main S h b =
        (if showHelp (parseArgs (argv h)) then [Console Usage]
         else (case ensureOutputDirectoryExists h of
                 (Inl e, ev) \<Rightarrow> ev @ [Console (Rejected e)]
               | (Inr outputDir, ev) \<Rightarrow>
                   ev @ map Console (snd (urlsToScrape S h (parseArgs (argv h))))
                   @ [Console (ErrorInMain
                        (JsError ''OPENAI_API_KEY environment variable is not set''))]))"
proof -
  from assms have k: "\<not> env_truthy (OPENAI_API_KEY b)"
    by (simp add: env_truthy_def)
  have m: "main S h b =
        (if showHelp (parseArgs (argv h)) then [Console Usage]
         else (case ensureOutputDirectoryExists h of
                 (Inl e, ev) \<Rightarrow> ev @ [Console (Rejected e)]
               | (Inr outputDir, ev) \<Rightarrow>
                   ev @ map Console (snd (urlsToScrape S h (parseArgs (argv h))))
                   @ [Console (ErrorInMain
                        (JsError ''OPENAI_API_KEY environment variable is not set''))]))"
    by (simp add: main_def Let_def run_pipeline_no_key[OF k] split: prod.splits sum.splits)
  have "filter (\<lambda>ev. browser_work ev \<or> file_written ev) (main S h b) = []"
    unfolding m using ensure_events[of h]
    by (cases "ensureOutputDirectoryExists h")
       (auto simp add: filter_console split: sum.splits simp del: filter_False)
  with m show ?thesis by simp
qed

theorem main_without_credential_witness:
  "main plain_String (demo_host [''-i'', ''urls.txt'', ''-o'', ''gaming''] url_file)
      browser_without_key =
     [MkDir ''/work/output'', MkDir ''/work/output/2025-01-02T03-04-05'',
      Console (ErrorInMain (JsError ''OPENAI_API_KEY environment variable is not set''))]"
  using main_without_credential[of browser_without_key plain_String
          "demo_host [''-i'', ''urls.txt'', ''-o'', ''gaming''] url_file"]
  by (simp add: browser_without_key_def browser_with_def argv_demo parseArgs_demo ensure_demo
        urlsToScrape_demo)

section \<open>C9: JSON that gives no URL list\<close>

text \<open>What the claim says, for every parsed value but \<^verbatim>\<open>null\<close>.\<close>

lemma readUrlsFromFile_unusable:
  assumes "read_file path = Inr content" "parse content = Inr v" "\<not> usable v" "v \<noteq> JNull"
  shows "readUrlsFromFile S read_file parse path
           = ([], [ErrorReadingUrls ''Could not parse input file format''])"
proof -
  have "parse_urls parse content = None"
  proof (cases v)
    case (JObject ps)
    with assms show ?thesis
      by (cases "map_of ps ''urls''") (auto simp add: parse_urls_def split: json.splits)
  qed (use assms in \<open>simp_all add: parse_urls_def\<close>)
  with assms show ?thesis by (simp add: readUrlsFromFile_def)
qed

text \<open>For \<^verbatim>\<open>null\<close> the result is that of reading the content as text.\<close>

lemma readUrlsFromFile_null:
  assumes "read_file path = Inr content" "parse content = Inr JNull"
  shows "readUrlsFromFile S read_file parse path = (text_urls content, [])"
  using assms by (simp add: readUrlsFromFile_def parse_urls_def)

lemma urlsToScrape_fallback:
  assumes "inputFile opts = Some file" "file \<noteq> []"
    and "fst (readUrlsFromFile S (readFileSync h) (JSON_parse h) file) = []"
  shows "fst (urlsToScrape S h opts) = exampleUrls"
  using assms
  by (cases "readUrlsFromFile S (readFileSync h) (JSON_parse h) file") (simp add: urlsToScrape_def)

text \<open>
  Claim C9: content that is valid JSON but neither an array nor an object with an array
  \<^verbatim>\<open>urls\<close> is not read as text; the function raises "Could not parse input file format",
  catches it and returns the empty list. The inner \<^verbatim>\<open>catch\<close>, commented "Not valid JSON, treat
  as text file", also takes the TypeError of \<^verbatim>\<open>jsonData.urls\<close> on \<^verbatim>\<open>null\<close>: for the file
  \<^verbatim>\<open>null\<close> the function returns what the text reading gives and logs no error, where for the
  file \<^verbatim>\<open>42\<close> it logs the error of the claim.
\<close>

theorem readUrlsFromFile_null_read_as_text:
  "readUrlsFromFile plain_String (\<lambda>p. Inr ''null'') (\<lambda>c. Inr JNull) ''urls.json''
     = (text_urls ''null'', [])
   \<and> text_urls ''null'' = []
   \<and> readUrlsFromFile plain_String (\<lambda>p. Inr ''42'') (\<lambda>c. Inr (JNumber 42)) ''urls.json''
       = ([], [ErrorReadingUrls ''Could not parse input file format''])"
  by (simp add: readUrlsFromFile_def parse_urls_def text_urls_def trim_def is_space_def
        startsWith_def)

end
